theory Spec2Isabelle
  imports Complex_Main
begin

section \<open>Strings\<close>

text \<open>
  The engine of \<^verbatim>\<open>src/app.js\<close> (class \<^verbatim>\<open>SimpleSQL\<close>) works on JavaScript strings.
  A string is modelled as a \<^typ>\<open>string\<close>, one \<^typ>\<open>char\<close> per UTF-16 code unit, which
  covers the code units 0 to 255 (ASCII and Latin-1). The character classes below are
  the ones of ECMAScript restricted to that range.
\<close>

definition code :: "char \<Rightarrow> nat" where
  "code c = of_char c"

text \<open>\<^verbatim>\<open>\s\<close> and the characters removed by \<^verbatim>\<open>trim()\<close>: tab, line feed, vertical tab, form
  feed, carriage return, space and the no-break space.\<close>

definition is_space :: "char \<Rightarrow> bool" where
  "is_space c = (let n = code c in (9 \<le> n \<and> n \<le> 13) \<or> n = 32 \<or> n = 160)"

text \<open>\<^verbatim>\<open>\d\<close> is \<^verbatim>\<open>[0-9]\<close> and \<^verbatim>\<open>\w\<close> is \<^verbatim>\<open>[A-Za-z0-9_]\<close>.\<close>

definition is_digit :: "char \<Rightarrow> bool" where
  "is_digit c = (let n = code c in 48 \<le> n \<and> n \<le> 57)"

definition is_word :: "char \<Rightarrow> bool" where
  "is_word c = (let n = code c in
     (48 \<le> n \<and> n \<le> 57) \<or> (65 \<le> n \<and> n \<le> 90) \<or> n = 95 \<or> (97 \<le> n \<and> n \<le> 122))"

text \<open>\<^verbatim>\<open>.\<close> matches every character but a line terminator.\<close>

definition is_dot :: "char \<Rightarrow> bool" where
  "is_dot c = (let n = code c in n \<noteq> 10 \<and> n \<noteq> 13)"

text \<open>\<^verbatim>\<open>toLowerCase()\<close> on one code unit: \<^verbatim>\<open>A-Z\<close>, and the Latin-1 capitals
  \<^verbatim>\<open>0xC0-0xDE\<close> without the multiplication sign \<^verbatim>\<open>0xD7\<close>, move up by 32. The two
  tables list the capitals and, at the same positions, their lower-case letters.\<close>

definition upper_chars :: string where
  "upper_chars = ''ABCDEFGHIJKLMNOPQRSTUVWXYZ'' @
     [CHR 0xC0, CHR 0xC1, CHR 0xC2, CHR 0xC3, CHR 0xC4, CHR 0xC5, CHR 0xC6, CHR 0xC7,
      CHR 0xC8, CHR 0xC9, CHR 0xCA, CHR 0xCB, CHR 0xCC, CHR 0xCD, CHR 0xCE, CHR 0xCF,
      CHR 0xD0, CHR 0xD1, CHR 0xD2, CHR 0xD3, CHR 0xD4, CHR 0xD5, CHR 0xD6, CHR 0xD8,
      CHR 0xD9, CHR 0xDA, CHR 0xDB, CHR 0xDC, CHR 0xDD, CHR 0xDE]"

definition lower_chars :: string where
  "lower_chars = ''abcdefghijklmnopqrstuvwxyz'' @
     [CHR 0xE0, CHR 0xE1, CHR 0xE2, CHR 0xE3, CHR 0xE4, CHR 0xE5, CHR 0xE6, CHR 0xE7,
      CHR 0xE8, CHR 0xE9, CHR 0xEA, CHR 0xEB, CHR 0xEC, CHR 0xED, CHR 0xEE, CHR 0xEF,
      CHR 0xF0, CHR 0xF1, CHR 0xF2, CHR 0xF3, CHR 0xF4, CHR 0xF5, CHR 0xF6, CHR 0xF8,
      CHR 0xF9, CHR 0xFA, CHR 0xFB, CHR 0xFC, CHR 0xFD, CHR 0xFE]"

definition lower_char :: "char \<Rightarrow> char" where
  "lower_char c = (case map_of (zip upper_chars lower_chars) c of None \<Rightarrow> c | Some d \<Rightarrow> d)"

definition toLowerCase :: "string \<Rightarrow> string" where
  "toLowerCase s = map lower_char s"

definition trim :: "string \<Rightarrow> string" where
  "trim s = rev (dropWhile is_space (rev (dropWhile is_space s)))"

text \<open>\<^verbatim>\<open>s.startsWith(p)\<close>.\<close>

fun startsWith :: "string \<Rightarrow> string \<Rightarrow> bool" where
  "startsWith s [] = True"
| "startsWith [] (p # ps) = False"
| "startsWith (c # cs) (p # ps) = (c = p \<and> startsWith cs ps)"

text \<open>\<^verbatim>\<open>s.split(',')\<close>: the pieces between the separators; the empty string gives one
  empty piece.\<close>

fun split_on :: "char \<Rightarrow> string \<Rightarrow> string list" where
  "split_on d [] = [[]]"
| "split_on d (c # cs) =
     (if c = d then [] # split_on d cs
      else (case split_on d cs of [] \<Rightarrow> [[c]] | p # ps \<Rightarrow> (c # p) # ps))"

text \<open>\<^verbatim>\<open>s.split(/\s+/)\<close>: the pieces between the maximal runs of white space. A run at
  the start or the end leaves an empty piece there, as in JavaScript.\<close>

function split_ws :: "string \<Rightarrow> string list" where
  "split_ws [] = [[]]"
| "split_ws (c # cs) =
     (if is_space c then [] # split_ws (dropWhile is_space cs)
      else (case split_ws cs of [] \<Rightarrow> [[c]] | p # ps \<Rightarrow> (c # p) # ps))"
  by pat_completeness auto
termination
  by (relation "measure length") (auto simp: length_dropWhile_le less_Suc_eq_le)

section \<open>Regular expressions\<close>

text \<open>
  The statement parsers are regular expressions run by \<^verbatim>\<open>String.prototype.match\<close> and
  \<^verbatim>\<open>RegExp.prototype.test\<close>. They are embedded as terms of \<open>rx\<close> and run by a
  backtracking matcher that lists the ways a pattern can match a prefix of the input in
  the order the JavaScript matcher tries them: a greedy quantifier longest first, a lazy
  one shortest first, an optional group taken before skipped. Every quantified atom of
  the source's patterns is a single character class, which is what \<open>Star\<close>, \<open>Lazy\<close> and
  \<open>Plus\<close> take.
\<close>

datatype cls = Space | Word | Digit | Dot | Cmp | Exact char | NoCase char

text \<open>\<open>Cmp\<close> is \<^verbatim>\<open>[><=]\<close>; \<open>NoCase c\<close> is the letter \<open>c\<close> (given in lower case) under the
  flag \<^verbatim>\<open>i\<close>.\<close>

fun in_cls :: "cls \<Rightarrow> char \<Rightarrow> bool" where
  "in_cls Space c = is_space c"
| "in_cls Word c = is_word c"
| "in_cls Digit c = is_digit c"
| "in_cls Dot c = is_dot c"
| "in_cls Cmp c = (c = CHR ''>'' \<or> c = CHR ''<'' \<or> c = CHR ''='')"
| "in_cls (Exact d) c = (c = d)"
| "in_cls (NoCase d) c = (lower_char c = d)"

datatype rx =
    Eps
  | Chr cls
  | Seq rx rx
  | Star cls
  | Lazy cls
  | Opt rx
  | Grp nat rx

text \<open>The captured groups, the latest capture of a group first; \<open>map_of g i\<close> is group
  \<open>i\<close>, \<open>None\<close> for JavaScript's \<^verbatim>\<open>undefined\<close>.\<close>

type_synonym captures = "(nat \<times> string) list"

text \<open>The inputs left after \<^verbatim>\<open>k*\<close>, longest match first, and after \<^verbatim>\<open>k*?\<close>, shortest
  match first.\<close>

fun star_rests :: "cls \<Rightarrow> string \<Rightarrow> string list" where
  "star_rests k [] = [[]]"
| "star_rests k (c # cs) = (if in_cls k c then star_rests k cs @ [c # cs] else [c # cs])"

fun lazy_rests :: "cls \<Rightarrow> string \<Rightarrow> string list" where
  "lazy_rests k [] = [[]]"
| "lazy_rests k (c # cs) = (if in_cls k c then (c # cs) # lazy_rests k cs else [c # cs])"

fun rx_match :: "rx \<Rightarrow> string \<times> captures \<Rightarrow> (string \<times> captures) list" where
  "rx_match Eps (s, g) = [(s, g)]"
| "rx_match (Chr k) (s, g) =
     (case s of [] \<Rightarrow> [] | c # cs \<Rightarrow> if in_cls k c then [(cs, g)] else [])"
| "rx_match (Seq a b) (s, g) = concat (map (rx_match b) (rx_match a (s, g)))"
| "rx_match (Star k) (s, g) = map (\<lambda>r. (r, g)) (star_rests k s)"
| "rx_match (Lazy k) (s, g) = map (\<lambda>r. (r, g)) (lazy_rests k s)"
| "rx_match (Opt r) (s, g) = rx_match r (s, g) @ [(s, g)]"
| "rx_match (Grp i r) (s, g) =
     map (\<lambda>(s', g'). (s', (i, take (length s - length s') s) # g')) (rx_match r (s, g))"

definition Plus :: "cls \<Rightarrow> rx" where
  "Plus k = Seq (Chr k) (Star k)"

text \<open>A word of the pattern, letter by letter, under the flag \<^verbatim>\<open>i\<close>.\<close>

fun word :: "string \<Rightarrow> rx" where
  "word [] = Eps"
| "word (c # cs) = Seq (Chr (NoCase c)) (word cs)"

fun seqs :: "rx list \<Rightarrow> rx" where
  "seqs [] = Eps"
| "seqs (r # rs) = Seq r (seqs rs)"

text \<open>\<^verbatim>\<open>s.match(re)\<close> for a pattern without anchors: the first start position, from the
  left, at which the pattern matches, and there the first way it matches. The result is
  the captures, \<open>None\<close> for JavaScript's \<^verbatim>\<open>null\<close>.\<close>

fun rx_search :: "rx \<Rightarrow> string \<Rightarrow> captures option" where
  "rx_search r [] = (case rx_match r ([], []) of [] \<Rightarrow> None | (_, g) # _ \<Rightarrow> Some g)"
| "rx_search r (c # cs) =
     (case rx_match r (c # cs, []) of [] \<Rightarrow> rx_search r cs | (_, g) # _ \<Rightarrow> Some g)"

text \<open>\<^verbatim>\<open>/^...$/.test(s)\<close>: some way of matching uses up the whole input.\<close>

definition rx_test :: "rx \<Rightarrow> string \<Rightarrow> bool" where
  "rx_test r s = list_ex (\<lambda>(rest, g). rest = []) (rx_match r (s, []))"

section \<open>Values\<close>

text \<open>
  The values a row can hold are the results of \<^verbatim>\<open>parseValue\<close>: \<^verbatim>\<open>null\<close>, a boolean, a
  number or a string. JavaScript has one number type; \<open>Integer\<close> and \<open>Float\<close> record
  which of \<^verbatim>\<open>parseInt\<close> and \<^verbatim>\<open>parseFloat\<close> produced the number, and carry the exact value
  of the decimal numeral (the rounding to a binary64 double, and its overflow to
  \<^verbatim>\<open>Infinity\<close>, are not modelled). Every
  comparison of the engine reads a number through \<open>to_number\<close>. \<open>Undefined\<close> is what a
  read past the end of a row gives.
\<close>

datatype jsval = Undefined | Null | Bool bool | Integer int | Float rat | Text string

definition apos :: char where
  "apos = CHR 0x27"

definition bslash :: char where
  "bslash = CHR 0x5C"

definition digit_val :: "char \<Rightarrow> nat" where
  "digit_val c = code c - 48"

definition digits_val :: "string \<Rightarrow> nat" where
  "digits_val ds = foldl (\<lambda>n c. 10 * n + digit_val c) 0 ds"

text \<open>\<^verbatim>\<open>parseInt(s, 10)\<close> and \<^verbatim>\<open>parseFloat(s)\<close> on the strings \<^verbatim>\<open>parseValue\<close> passes to
  them: an optional minus sign and digits, and an optional minus sign, digits, a point
  and digits. Both give the mathematical value of the numeral. JavaScript returns the
  nearest binary64 double instead: the two agree on every integer of magnitude up to
  \<open>2 ^ 53\<close> and on every decimal that a double holds exactly, and differ where the double
  rounds, or overflows to \<^verbatim>\<open>Infinity\<close> (a numeral of more than 308 digits).\<close>

definition parseInt :: "string \<Rightarrow> int" where
  "parseInt s = (case s of
      [] \<Rightarrow> 0
    | c # cs \<Rightarrow> if c = CHR ''-'' then - int (digits_val cs) else int (digits_val s))"

definition unsigned_decimal :: "string \<Rightarrow> rat" where
  "unsigned_decimal u =
     (let ip = takeWhile is_digit u; fp = drop 1 (dropWhile is_digit u)
      in of_nat (digits_val ip) + of_nat (digits_val fp) / 10 ^ length fp)"

definition parseFloat :: "string \<Rightarrow> rat" where
  "parseFloat s = (case s of
      [] \<Rightarrow> 0
    | c # cs \<Rightarrow> if c = CHR ''-'' then - unsigned_decimal cs else unsigned_decimal s)"

section \<open>Scalar parser\<close>

text \<open>\<^verbatim>\<open>/^-?\d+$/\<close> and \<^verbatim>\<open>/^-?\d*\.\d+$/\<close>.\<close>

definition int_rx :: rx where
  "int_rx = seqs [Opt (Chr (Exact CHR ''-'')), Plus Digit]"

definition float_rx :: rx where
  "float_rx = seqs [Opt (Chr (Exact CHR ''-'')), Star Digit, Chr (Exact CHR ''.''), Plus Digit]"

definition parseValue :: "string \<Rightarrow> jsval" where
  "parseValue value0 =
     (let v = trim value0 in
      if toLowerCase v = ''null'' then Null
      else if v = ''true'' then Bool True
      else if v = ''false'' then Bool False
      else if rx_test int_rx v then Integer (parseInt v)
      else if rx_test float_rx v then Float (parseFloat v)
      else Text v)"

section \<open>Tuple scanner\<close>

text \<open>\<^verbatim>\<open>valuesStr.replace(/^\(|\)$/g, '')\<close>: an opening parenthesis at the start is removed,
  and a closing parenthesis at the end of what is left.\<close>

definition strip_parens :: "string \<Rightarrow> string" where
  "strip_parens s =
     (let s1 = (case s of [] \<Rightarrow> [] | c # cs \<Rightarrow> if c = CHR ''('' then cs else s)
      in if s1 \<noteq> [] \<and> last s1 = CHR '')'' then butlast s1 else s1)"

text \<open>
  The loop of \<^verbatim>\<open>parseValues\<close>. \<open>prev\<close> is the character before the current one
  (\<open>None\<close> at index 0), \<open>q\<close> is \<^verbatim>\<open>inQuotes\<close>, \<open>cur\<close> is \<^verbatim>\<open>current\<close> and \<open>vals\<close> is
  \<^verbatim>\<open>values\<close>. An apostrophe that does not follow a backslash toggles \<open>q\<close> and is
  dropped (\<^verbatim>\<open>continue\<close>); a comma outside quotes ends a token; every other character,
  an apostrophe after a backslash included, is appended to \<open>cur\<close>.
\<close>

fun parseValues_loop ::
  "char option \<Rightarrow> bool \<Rightarrow> string \<Rightarrow> jsval list \<Rightarrow> string \<Rightarrow> jsval list \<times> string" where
  "parseValues_loop prev q cur vals [] = (vals, cur)"
| "parseValues_loop prev q cur vals (c # cs) =
     (if c = apos \<and> prev \<noteq> Some bslash then parseValues_loop (Some c) (\<not> q) cur vals cs
      else if \<not> q \<and> c = CHR '','' then
        parseValues_loop (Some c) q [] (vals @ [parseValue (trim cur)]) cs
      else parseValues_loop (Some c) q (cur @ [c]) vals cs)"

definition parseValues :: "string \<Rightarrow> jsval list" where
  "parseValues valuesStr =
     (case parseValues_loop None False [] [] (strip_parens valuesStr) of
        (vals, cur) \<Rightarrow> if trim cur \<noteq> [] then vals @ [parseValue (trim cur)] else vals)"

text \<open>
  The loop of \<^verbatim>\<open>parseValuesSets\<close>; \<open>d\<close> is \<^verbatim>\<open>parenCount\<close>, a JavaScript number that can
  go below zero. The quote flag and the depth are updated before the comma test, so the
  test sees the updated values.
\<close>

fun parseValuesSets_loop ::
  "char option \<Rightarrow> bool \<Rightarrow> int \<Rightarrow> string \<Rightarrow> jsval list list \<Rightarrow> string
     \<Rightarrow> jsval list list \<times> string" where
  "parseValuesSets_loop prev q d cur sets [] = (sets, cur)"
| "parseValuesSets_loop prev q d cur sets (c # cs) =
     (let q' = (if c = apos \<and> prev \<noteq> Some bslash then \<not> q else q);
          d' = (if \<not> q' then (if c = CHR ''('' then d + 1 else if c = CHR '')'' then d - 1 else d)
                else d)
      in if \<not> q' \<and> d' = 0 \<and> c = CHR '','' then
           parseValuesSets_loop (Some c) q' d' []
             (if trim cur \<noteq> [] then sets @ [parseValues (trim cur)] else sets) cs
         else parseValuesSets_loop (Some c) q' d' (cur @ [c]) sets cs)"

definition parseValuesSets :: "string \<Rightarrow> jsval list list" where
  "parseValuesSets valuesStr =
     (case parseValuesSets_loop None False 0 [] [] valuesStr of
        (sets, cur) \<Rightarrow> if trim cur \<noteq> [] then sets @ [parseValues (trim cur)] else sets)"

section \<open>Comparison of values\<close>

text \<open>
  \<^verbatim>\<open>evaluateWhere\<close> compares with JavaScript's \<^verbatim>\<open>==\<close>, \<^verbatim>\<open>!=\<close>, \<^verbatim>\<open><\<close>, \<^verbatim>\<open>>\<close>, \<^verbatim>\<open><=\<close> and
  \<^verbatim>\<open>>=\<close>. Two strings are compared as strings, code unit by code unit; every other
  pair is compared as numbers, after \<^verbatim>\<open>ToNumber\<close>, except that \<^verbatim>\<open>null\<close> and
  \<^verbatim>\<open>undefined\<close> are loosely equal to each other and to nothing else.
\<close>

datatype jsnum = NaN | NegInf | Fin rat | PosInf

definition hex_val :: "char \<Rightarrow> nat option" where
  "hex_val c = (let n = code c in
     if 48 \<le> n \<and> n \<le> 57 then Some (n - 48)
     else if 65 \<le> n \<and> n \<le> 70 then Some (n - 55)
     else if 97 \<le> n \<and> n \<le> 102 then Some (n - 87)
     else None)"

text \<open>The digits of a literal with prefix \<^verbatim>\<open>0x\<close>, \<^verbatim>\<open>0o\<close> or \<^verbatim>\<open>0b\<close>: at least one digit,
  each below the radix.\<close>

definition radix_val :: "nat \<Rightarrow> string \<Rightarrow> jsnum" where
  "radix_val b ds =
     (if ds \<noteq> [] \<and> list_all (\<lambda>c. case hex_val c of None \<Rightarrow> False | Some v \<Rightarrow> v < b) ds
      then Fin (of_nat (foldl (\<lambda>n c. b * n + (case hex_val c of None \<Rightarrow> 0 | Some v \<Rightarrow> v)) 0 ds))
      else NaN)"

text \<open>The exponent part: nothing, or \<^verbatim>\<open>e\<close> or \<^verbatim>\<open>E\<close>, an optional sign and digits.\<close>

definition exponent :: "string \<Rightarrow> int option" where
  "exponent r = (case r of
      [] \<Rightarrow> Some 0
    | e # r1 \<Rightarrow>
        if e = CHR ''e'' \<or> e = CHR ''E'' then
          (let neg = (case r1 of [] \<Rightarrow> False | c # _ \<Rightarrow> c = CHR ''-'');
               ds = (case r1 of [] \<Rightarrow> [] | c # r2 \<Rightarrow> if c = CHR ''-'' \<or> c = CHR ''+'' then r2 else r1)
           in if ds \<noteq> [] \<and> list_all is_digit ds
              then Some (if neg then - int (digits_val ds) else int (digits_val ds))
              else None)
        else None)"

text \<open>\<^verbatim>\<open>StrUnsignedDecimalLiteral\<close>: \<^verbatim>\<open>Infinity\<close>, or digits with an optional fraction, or
  a point and digits, each with an optional exponent. The value is the mathematical one:
  JavaScript's rounding to a double, its underflow to 0 and its overflow to \<^verbatim>\<open>Infinity\<close>
  for a large exponent are not modelled.\<close>

definition unsigned_literal :: "string \<Rightarrow> jsnum" where
  "unsigned_literal u =
     (if u = ''Infinity'' then PosInf
      else
        (let ip = takeWhile is_digit u; r1 = dropWhile is_digit u;
             fp = (case r1 of [] \<Rightarrow> [] | c # r \<Rightarrow> if c = CHR ''.'' then takeWhile is_digit r else []);
             r2 = (case r1 of [] \<Rightarrow> [] | c # r \<Rightarrow> if c = CHR ''.'' then dropWhile is_digit r else r1)
         in if ip = [] \<and> fp = [] then NaN
            else (case exponent r2 of
                    None \<Rightarrow> NaN
                  | Some e \<Rightarrow>
                      (let m = of_nat (digits_val ip) + of_nat (digits_val fp) / 10 ^ length fp
                       in Fin (if 0 \<le> e then m * 10 ^ nat e else m / 10 ^ nat (- e))))))"

definition negate :: "jsnum \<Rightarrow> jsnum" where
  "negate x = (case x of NaN \<Rightarrow> NaN | NegInf \<Rightarrow> PosInf | Fin r \<Rightarrow> Fin (- r) | PosInf \<Rightarrow> NegInf)"

text \<open>\<^verbatim>\<open>ToNumber\<close> of a string: white space around the literal is ignored, the empty
  string is 0, and a string that is no numeric literal is \<^verbatim>\<open>NaN\<close>.\<close>

definition string_to_number :: "string \<Rightarrow> jsnum" where
  "string_to_number s =
     (case trim s of
        [] \<Rightarrow> Fin 0
      | c # cs \<Rightarrow>
          if c = CHR ''-'' then negate (unsigned_literal cs)
          else if c = CHR ''+'' then unsigned_literal cs
          else if c = CHR ''0'' \<and> cs \<noteq> [] \<and> hd cs \<in> set ''xX'' then radix_val 16 (tl cs)
          else if c = CHR ''0'' \<and> cs \<noteq> [] \<and> hd cs \<in> set ''oO'' then radix_val 8 (tl cs)
          else if c = CHR ''0'' \<and> cs \<noteq> [] \<and> hd cs \<in> set ''bB'' then radix_val 2 (tl cs)
          else unsigned_literal (c # cs))"

fun to_number :: "jsval \<Rightarrow> jsnum" where
  "to_number Undefined = NaN"
| "to_number Null = Fin 0"
| "to_number (Bool b) = Fin (if b then 1 else 0)"
| "to_number (Integer i) = Fin (of_int i)"
| "to_number (Float r) = Fin r"
| "to_number (Text s) = string_to_number s"

fun num_eq :: "jsnum \<Rightarrow> jsnum \<Rightarrow> bool" where
  "num_eq NaN y = False"
| "num_eq x NaN = False"
| "num_eq x y = (x = y)"

text \<open>\<open>num_lt x y\<close> is \<open>None\<close> when the comparison is undefined (a \<^verbatim>\<open>NaN\<close> operand).\<close>

fun num_lt :: "jsnum \<Rightarrow> jsnum \<Rightarrow> bool option" where
  "num_lt NaN y = None"
| "num_lt x NaN = None"
| "num_lt x NegInf = Some False"
| "num_lt NegInf y = Some True"
| "num_lt PosInf y = Some False"
| "num_lt x PosInf = Some True"
| "num_lt (Fin a) (Fin b) = Some (a < b)"

fun str_lt :: "string \<Rightarrow> string \<Rightarrow> bool" where
  "str_lt s [] = False"
| "str_lt [] (d # t) = True"
| "str_lt (c # s) (d # t) = (code c < code d \<or> (c = d \<and> str_lt s t))"

definition nullish :: "jsval \<Rightarrow> bool" where
  "nullish v = (v = Undefined \<or> v = Null)"

text \<open>\<^verbatim>\<open>x == y\<close>.\<close>

definition loose_eq :: "jsval \<Rightarrow> jsval \<Rightarrow> bool" where
  "loose_eq x y =
     (if nullish x \<or> nullish y then nullish x \<and> nullish y
      else (case (x, y) of
              (Text s, Text t) \<Rightarrow> s = t
            | _ \<Rightarrow> num_eq (to_number x) (to_number y)))"

text \<open>The abstract relational comparison \<^verbatim>\<open>x < y\<close>, \<open>None\<close> for undefined.\<close>

definition is_less_than :: "jsval \<Rightarrow> jsval \<Rightarrow> bool option" where
  "is_less_than x y =
     (case (x, y) of
        (Text s, Text t) \<Rightarrow> Some (str_lt s t)
      | _ \<Rightarrow> num_lt (to_number x) (to_number y))"

definition js_lt :: "jsval \<Rightarrow> jsval \<Rightarrow> bool" where
  "js_lt x y = (is_less_than x y = Some True)"

definition js_gt :: "jsval \<Rightarrow> jsval \<Rightarrow> bool" where
  "js_gt x y = (is_less_than y x = Some True)"

definition js_le :: "jsval \<Rightarrow> jsval \<Rightarrow> bool" where
  "js_le x y = (is_less_than y x = Some False)"

definition js_ge :: "jsval \<Rightarrow> jsval \<Rightarrow> bool" where
  "js_ge x y = (is_less_than x y = Some False)"

section \<open>Catalog\<close>

text \<open>
  \<^verbatim>\<open>this.tables\<close> is a \<^verbatim>\<open>Map\<close> from the lower-cased table name to an object
  \<^verbatim>\<open>{ columns, rows }\<close>; a column is \<^verbatim>\<open>{ name, type }\<close>. A method that mutates the map
  or pushes onto \<^verbatim>\<open>table.rows\<close> returns the new catalog beside its result, also when it
  throws: what was pushed before a \<^verbatim>\<open>throw\<close> stays.
\<close>

record column =
  name :: string
  type :: string

record table =
  columns :: "column list"
  rows :: "jsval list list"

type_synonym tables = "string \<rightharpoonup> table"

text \<open>One constructor for each \<^verbatim>\<open>throw new Error(...)\<close> of the class, named after its
  message, with the values the message interpolates. \<open>TypeError\<close> is what JavaScript
  raises on a method call on \<^verbatim>\<open>undefined\<close>, for a capture group that did not take
  part in the match.\<close>

datatype error =
    FileReadingNotSupported
  | UnsupportedQueryType
  | InvalidCreateTableSyntax
  | InvalidInsertSyntax
  | TableDoesNotExist string
  | ColumnCountMismatch nat nat
  | ColumnNotFound string
  | AdvancedSelectNotSupported
  | InvalidDropTableSyntax
  | TypeError

text \<open>What \<^verbatim>\<open>exec\<close> returns: the empty array, or an array of one
  \<^verbatim>\<open>{ columns, values }\<close>.\<close>

datatype resultset = ResultSet (res_columns: "string list") (res_values: "jsval list list")

type_synonym outcome = "(error + resultset list) \<times> tables"

section \<open>CREATE TABLE\<close>

text \<open>\<^verbatim>\<open>/create\s+table\s+(\w+)\s*\((.*)\)/i\<close>\<close>

definition create_rx :: rx where
  "create_rx = seqs [word ''create'', Plus Space, word ''table'', Plus Space, Grp 1 (Plus Word),
     Star Space, Chr (Exact CHR ''(''), Grp 2 (Star Dot), Chr (Exact CHR '')'')]"

text \<open>One column definition: \<^verbatim>\<open>parts[0]\<close> is the name, \<^verbatim>\<open>parts[1] || 'TEXT'\<close> the type.\<close>

definition parse_column :: "string \<Rightarrow> column" where
  "parse_column col =
     (case split_ws (trim col) of
        [] \<Rightarrow> \<lparr>name = [], type = ''TEXT''\<rparr>
      | p # ps \<Rightarrow> \<lparr>name = p, type = (case ps of [] \<Rightarrow> ''TEXT'' | t # _ \<Rightarrow> if t = [] then ''TEXT'' else t)\<rparr>)"

definition createTable :: "string \<Rightarrow> tables \<Rightarrow> outcome" where
  "createTable query tabs =
     (case rx_search create_rx query of
        None \<Rightarrow> (Inl InvalidCreateTableSyntax, tabs)
      | Some g \<Rightarrow>
          (case (map_of g 1, map_of g 2) of
             (Some m1, Some columnsStr) \<Rightarrow>
               (Inr [], tabs(toLowerCase m1 \<mapsto>
                  \<lparr>columns = map parse_column (split_on CHR '','' columnsStr), rows = []\<rparr>))
           | _ \<Rightarrow> (Inl TypeError, tabs)))"

section \<open>INSERT\<close>

text \<open>\<^verbatim>\<open>/insert\s+into\s+(\w+)\s+values\s*\((.*)\)/i\<close>\<close>

definition insert_rx :: rx where
  "insert_rx = seqs [word ''insert'', Plus Space, word ''into'', Plus Space, Grp 1 (Plus Word),
     Plus Space, word ''values'', Star Space, Chr (Exact CHR ''(''), Grp 2 (Star Dot),
     Chr (Exact CHR '')'')]"

text \<open>The \<^verbatim>\<open>forEach\<close> over the value sets: \<open>n\<close> is \<^verbatim>\<open>table.columns.length\<close>, \<open>rs\<close> is
  \<^verbatim>\<open>table.rows\<close>. A set of the wrong length throws; the sets pushed before it stay in
  \<open>rs\<close>.\<close>

fun push_rows :: "nat \<Rightarrow> jsval list list \<Rightarrow> jsval list list \<Rightarrow> error option \<times> jsval list list" where
  "push_rows n rs [] = (None, rs)"
| "push_rows n rs (vs # vss) =
     (if length vs \<noteq> n then (Some (ColumnCountMismatch n (length vs)), rs)
      else push_rows n (rs @ [vs]) vss)"

definition insertInto :: "string \<Rightarrow> tables \<Rightarrow> outcome" where
  "insertInto query tabs =
     (case rx_search insert_rx query of
        None \<Rightarrow> (Inl InvalidInsertSyntax, tabs)
      | Some g \<Rightarrow>
          (case (map_of g 1, map_of g 2) of
             (Some m1, Some valuesStr) \<Rightarrow>
               (let tableName = toLowerCase m1 in
                case tabs tableName of
                  None \<Rightarrow> (Inl (TableDoesNotExist tableName), tabs)
                | Some tbl \<Rightarrow>
                    (case push_rows (length (columns tbl)) (rows tbl) (parseValuesSets valuesStr) of
                       (err, rs) \<Rightarrow>
                         ((case err of None \<Rightarrow> Inr [] | Some e \<Rightarrow> Inl e),
                          tabs(tableName \<mapsto> tbl\<lparr>rows := rs\<rparr>))))
           | _ \<Rightarrow> (Inl TypeError, tabs)))"

section \<open>SELECT\<close>

text \<open>\<^verbatim>\<open>array.findIndex(p)\<close>, \<open>None\<close> for \<^verbatim>\<open>-1\<close>.\<close>

fun findIndex :: "('a \<Rightarrow> bool) \<Rightarrow> 'a list \<Rightarrow> nat option" where
  "findIndex p [] = None"
| "findIndex p (x # xs) = (if p x then Some 0 else map_option Suc (findIndex p xs))"

text \<open>\<^verbatim>\<open>row[i]\<close>.\<close>

definition cell :: "jsval list \<Rightarrow> nat \<Rightarrow> jsval" where
  "cell row i = (if i < length row then row ! i else Undefined)"

text \<open>\<^verbatim>\<open>/(\w+)\s*([><=]+)\s*(.+)/i\<close>\<close>

definition where_rx :: rx where
  "where_rx = seqs [Grp 1 (Plus Word), Star Space, Grp 2 (Plus Cmp), Star Space, Grp 3 (Plus Dot)]"

definition evaluateWhere :: "jsval list \<Rightarrow> column list \<Rightarrow> string \<Rightarrow> bool" where
  "evaluateWhere row cols whereClause =
     (case rx_search where_rx whereClause of
        None \<Rightarrow> True
      | Some g \<Rightarrow>
          (case (map_of g 1, map_of g 2, map_of g 3) of
             (Some columnName, Some operator, Some valueStr) \<Rightarrow>
               (case findIndex (\<lambda>col. toLowerCase (name col) = toLowerCase columnName) cols of
                  None \<Rightarrow> True
                | Some columnIndex \<Rightarrow>
                    (let rowValue = cell row columnIndex; compareValue = parseValue valueStr in
                     if operator = ''='' then loose_eq rowValue compareValue
                     else if operator = ''>'' then js_gt rowValue compareValue
                     else if operator = ''<'' then js_lt rowValue compareValue
                     else if operator = ''>='' then js_ge rowValue compareValue
                     else if operator = ''<='' then js_le rowValue compareValue
                     else if operator = ''!='' \<or> operator = ''<>'' then \<not> loose_eq rowValue compareValue
                     else True))
           | _ \<Rightarrow> True))"

text \<open>\<^verbatim>\<open>/select\s+(.*?)\s+from\s+(\w+)(?:\s+where\s+(.*))?/i\<close>\<close>

definition select_rx :: rx where
  "select_rx = seqs [word ''select'', Plus Space, Grp 1 (Lazy Dot), Plus Space, word ''from'',
     Plus Space, Grp 2 (Plus Word),
     Opt (seqs [Plus Space, word ''where'', Plus Space, Grp 3 (Star Dot)])]"

text \<open>The indices of the selected columns; the first name that no column has throws.\<close>

fun colIndices :: "column list \<Rightarrow> string list \<Rightarrow> error + nat list" where
  "colIndices cols [] = Inr []"
| "colIndices cols (colName # rest) =
     (case findIndex (\<lambda>col. toLowerCase (name col) = toLowerCase colName) cols of
        None \<Rightarrow> Inl (ColumnNotFound colName)
      | Some index \<Rightarrow>
          (case colIndices cols rest of Inl e \<Rightarrow> Inl e | Inr is \<Rightarrow> Inr (index # is)))"

definition select :: "string \<Rightarrow> tables \<Rightarrow> outcome" where
  "select query tabs =
     (case rx_search select_rx query of
        None \<Rightarrow> (Inl AdvancedSelectNotSupported, tabs)
      | Some g \<Rightarrow>
          (case (map_of g 1, map_of g 2) of
             (Some m1, Some m2) \<Rightarrow>
               (let columnsStr = trim m1; tableName = toLowerCase m2 in
                case tabs tableName of
                  None \<Rightarrow> (Inl (TableDoesNotExist tableName), tabs)
                | Some tbl \<Rightarrow>
                    (let rs = (case map_of g 3 of
                                 None \<Rightarrow> rows tbl
                               | Some whereClause \<Rightarrow>
                                   if whereClause \<noteq> []
                                   then filter (\<lambda>row. evaluateWhere row (columns tbl) whereClause) (rows tbl)
                                   else rows tbl)
                     in if columnsStr = ''*'' then
                          (Inr [ResultSet (map name (columns tbl)) rs], tabs)
                        else
                          (let selectedCols = map trim (split_on CHR '','' columnsStr) in
                           case colIndices (columns tbl) selectedCols of
                             Inl e \<Rightarrow> (Inl e, tabs)
                           | Inr is \<Rightarrow>
                               (Inr [ResultSet selectedCols (map (\<lambda>row. map (cell row) is) rs)], tabs))))
           | _ \<Rightarrow> (Inl TypeError, tabs)))"

section \<open>DROP TABLE\<close>

text \<open>\<^verbatim>\<open>/drop\s+table\s+(\w+)/i\<close>\<close>

definition drop_rx :: rx where
  "drop_rx = seqs [word ''drop'', Plus Space, word ''table'', Plus Space, Grp 1 (Plus Word)]"

definition dropTable :: "string \<Rightarrow> tables \<Rightarrow> outcome" where
  "dropTable query tabs =
     (case rx_search drop_rx query of
        None \<Rightarrow> (Inl InvalidDropTableSyntax, tabs)
      | Some g \<Rightarrow>
          (case map_of g 1 of
             Some m1 \<Rightarrow>
               (let tableName = toLowerCase m1 in
                if tabs tableName = None then (Inl (TableDoesNotExist tableName), tabs)
                else (Inr [], tabs(tableName := None)))
           | None \<Rightarrow> (Inl TypeError, tabs)))"

section \<open>Dispatcher\<close>

definition exec :: "string \<Rightarrow> tables \<Rightarrow> outcome" where
  "exec query tabs =
     (let trimmed = toLowerCase (trim query) in
      if startsWith trimmed ''create table'' then createTable query tabs
      else if startsWith trimmed ''insert into'' then insertInto query tabs
      else if startsWith trimmed ''select'' then select query tabs
      else if startsWith trimmed ''drop table'' then dropTable query tabs
      else if startsWith trimmed ''read_csv_auto('' \<or> startsWith trimmed ''read_parquet(''
        then (Inl FileReadingNotSupported, tabs)
      else (Inl UnsupportedQueryType, tabs))"

section \<open>Example statements and catalogs\<close>

text \<open>The statements of the examples; an apostrophe inside a statement is \<open>apos\<close>.\<close>

definition q_create_ab :: string where
  "q_create_ab = ''CREATE TABLE t (a INT, b TEXT)''"

definition q_insert_xy :: string where
  "q_insert_xy = ''INSERT INTO t VALUES (1,'' @ [apos] @ ''x'' @ [apos] @ ''),(2,'' @ [apos] @ ''y'' @ [apos] @ '')''"

definition q_select_all :: string where
  "q_select_all = ''SELECT * FROM t''"

definition t_ab :: table where
  "t_ab = \<lparr>columns = [\<lparr>name = ''a'', type = ''INT''\<rparr>, \<lparr>name = ''b'', type = ''TEXT''\<rparr>], rows = []\<rparr>"

definition q_create_a :: string where
  "q_create_a = ''CREATE TABLE t (a INT)''"

definition q_insert_12 :: string where
  "q_insert_12 = ''INSERT INTO t VALUES (1, 2)''"

definition q_select_ne :: string where
  "q_select_ne = ''SELECT * FROM t WHERE a != 1''"

definition q_select_ltgt :: string where
  "q_select_ltgt = ''SELECT * FROM t WHERE a <> 1''"

definition t_a :: "jsval list list \<Rightarrow> table" where
  "t_a rs = \<lparr>columns = [\<lparr>name = ''a'', type = ''INT''\<rparr>], rows = rs\<rparr>"

definition q_select_csv :: string where
  "q_select_csv = ''SELECT * FROM read_csv_auto('' @ [apos] @ ''data.csv'' @ [apos] @ '')''"

definition tuples_x2 :: string where
  "tuples_x2 = ''(1,'' @ [apos] @ ''x'' @ [apos] @ ''),(2)''"

definition q_insert_x2 :: string where
  "q_insert_x2 = ''INSERT INTO t VALUES '' @ tuples_x2"

definition q_insert_nested :: string where
  "q_insert_nested = ''INSERT INTO t VALUES (1, (2,3), 4)''"

definition q_create_upper :: string where
  "q_create_upper = ''create table T (x, y INT)''"

definition q_drop_missing :: string where
  "q_drop_missing = ''DROP TABLE missing''"

definition q_select_true :: string where
  "q_select_true = ''SELECT * FROM t WHERE true''"

definition q_select_url :: string where
  "q_select_url = ''SELECT * FROM '' @ [apos] @ ''https://example.com/file.parquet'' @ [apos]"

definition q_insert_quote :: string where
  "q_insert_quote = ''INSERT INTO t VALUES ('' @ [apos] @ ''it'' @ [bslash, apos] @ ''s'' @ [apos] @ '')''"

section \<open>Auxiliary notions\<close>

text \<open>The capture groups that take part in every match of a pattern: those outside an
  optional group.\<close>

fun groups_of :: "rx \<Rightarrow> nat set" where
  "groups_of Eps = {}"
| "groups_of (Chr k) = {}"
| "groups_of (Seq a b) = groups_of a \<union> groups_of b"
| "groups_of (Star k) = {}"
| "groups_of (Lazy k) = {}"
| "groups_of (Opt r) = {}"
| "groups_of (Grp i r) = insert i (groups_of r)"


text \<open>The inputs a pattern can leave, in any order and without the captures: what
  \<^verbatim>\<open>test\<close> depends on.\<close>

definition rests :: "rx \<Rightarrow> string \<Rightarrow> string set" where
  "rests r s = fst ` set (rx_match r (s, []))"

text \<open>
  The content of a quoted literal, as the scanner delimits it: every apostrophe in it
  follows a backslash (\<open>prev\<close> is the character before the text, the opening apostrophe
  for the whole content), and it does not end in a backslash, so that the closing
  apostrophe is not escaped.
\<close>

fun escaped_from :: "char option \<Rightarrow> string \<Rightarrow> bool" where
  "escaped_from prev [] = True"
| "escaped_from prev (c # cs) = ((c \<noteq> apos \<or> prev = Some bslash) \<and> escaped_from (Some c) cs)"

definition quoted_content :: "string \<Rightarrow> bool" where
  "quoted_content s = (escaped_from (Some apos) s \<and> (s = [] \<or> last s \<noteq> bslash))"

section \<open>The row-length invariant\<close>

text \<open>Every row of every table of the catalog has as many values as the table has
  columns.\<close>

definition rows_fit :: "tables \<Rightarrow> bool" where
  "rows_fit tabs =
     (\<forall>nm tbl. tabs nm = Some tbl \<longrightarrow> (\<forall>r\<in>set (rows tbl). length r = length (columns tbl)))"

text \<open>The catalogs an engine can be in: the empty one of the constructor, and the one
  after any call of \<^verbatim>\<open>exec\<close>, whether it returned or threw.\<close>

inductive reachable :: "tables \<Rightarrow> bool" where
  init: "reachable Map.empty"
| step: "reachable tabs \<Longrightarrow> reachable (snd (exec q tabs))"

section \<open>Evaluation\<close>

lemmas char_defs = lower_char_def upper_chars_def lower_chars_def code_def is_space_def is_word_def
  is_dot_def is_digit_def toLowerCase_def trim_def apos_def bslash_def Plus_def Let_def

lemmas scan_defs = parseValuesSets_def parseValues_def strip_parens_def parseValue_def rx_test_def
  int_rx_def float_rx_def parseInt_def digits_val_def digit_val_def

lemma exec_create_ab: "exec q_create_ab tabs = (Inr [], tabs(''t'' \<mapsto> t_ab))"
  by (simp add: exec_def createTable_def create_rx_def parse_column_def q_create_ab_def t_ab_def
      char_defs)

lemma exec_insert_xy:
  "exec q_insert_xy (tabs(''t'' \<mapsto> t_ab)) = (Inl (ColumnCountMismatch 2 1), tabs(''t'' \<mapsto> t_ab))"
  by (simp add: exec_def insertInto_def insert_rx_def scan_defs q_insert_xy_def t_ab_def char_defs)

lemma exec_select_all_ab:
  "exec q_select_all (tabs(''t'' \<mapsto> t_ab)) = (Inr [ResultSet [''a'', ''b''] []], tabs(''t'' \<mapsto> t_ab))"
  by (simp add: exec_def select_def select_rx_def q_select_all_def t_ab_def char_defs)

text \<open>
  C1. After \<^verbatim>\<open>CREATE TABLE t (a INT, b TEXT)\<close>, the statement
  \<^verbatim>\<open>INSERT INTO t VALUES (1,'x'),(2,'y')\<close> does not succeed: the pattern of
  \<^verbatim>\<open>insertInto\<close> captures the text between the first opening and the last closing
  parenthesis, \<^verbatim>\<open>1,'x'),(2,'y'\<close>, so the scanner sees the first comma at depth 0 and
  yields the one-value set \<^verbatim>\<open>[1]\<close> first. The statement raises the column count
  mismatch "expected 2, got 1", stores nothing, and the following
  \<^verbatim>\<open>SELECT * FROM t\<close> returns the columns \<^verbatim>\<open>a\<close>, \<^verbatim>\<open>b\<close> and no rows.
\<close>

theorem insert_two_tuples_mismatch:
  "fst (exec q_insert_xy (snd (exec q_create_ab tabs))) = Inl (ColumnCountMismatch 2 1) \<and>
   fst (exec q_select_all (snd (exec q_insert_xy (snd (exec q_create_ab tabs)))))
     = Inr [ResultSet [''a'', ''b''] []]"
  by (simp only: exec_create_ab exec_insert_xy exec_select_all_ab fst_conv snd_conv simp_thms)

lemma exec_create_a: "exec q_create_a tabs = (Inr [], tabs(''t'' \<mapsto> t_a []))"
  by (simp add: exec_def createTable_def create_rx_def parse_column_def q_create_a_def t_a_def
      char_defs)

lemma exec_insert_12:
  "exec q_insert_12 (tabs(''t'' \<mapsto> t_a [])) = (Inr [], tabs(''t'' \<mapsto> t_a [[Integer 1], [Integer 2]]))"
  by (simp add: exec_def insertInto_def insert_rx_def scan_defs q_insert_12_def t_a_def char_defs)

lemma exec_select_ne:
  "exec q_select_ne (tabs(''t'' \<mapsto> t_a [[Integer 1], [Integer 2]]))
     = (Inr [ResultSet [''a''] [[Integer 1], [Integer 2]]], tabs(''t'' \<mapsto> t_a [[Integer 1], [Integer 2]]))"
  by (simp add: exec_def select_def select_rx_def evaluateWhere_def where_rx_def q_select_ne_def
      t_a_def char_defs)

lemma exec_select_ltgt:
  "exec q_select_ltgt (tabs(''t'' \<mapsto> t_a [[Integer 1], [Integer 2]]))
     = (Inr [ResultSet [''a''] [[Integer 2]]], tabs(''t'' \<mapsto> t_a [[Integer 1], [Integer 2]]))"
  by (simp add: exec_def select_def select_rx_def evaluateWhere_def where_rx_def q_select_ltgt_def
      t_a_def cell_def loose_eq_def nullish_def scan_defs char_defs)

text \<open>
  C3. On the table \<^verbatim>\<open>t(a)\<close> with the rows \<^verbatim>\<open>[1]\<close> and \<^verbatim>\<open>[2]\<close>, built by
  \<^verbatim>\<open>CREATE TABLE t (a INT)\<close> and \<^verbatim>\<open>INSERT INTO t VALUES (1, 2)\<close>, the statement
  \<^verbatim>\<open>SELECT * FROM t WHERE a != 1\<close> returns both rows, the row whose \<^verbatim>\<open>a\<close> equals the
  literal included: the operator class \<^verbatim>\<open>[><=]\<close> of the pattern of \<^verbatim>\<open>evaluateWhere\<close>
  has no \<^verbatim>\<open>!\<close>, the condition does not match and the row is kept. The same condition
  written with \<^verbatim>\<open><>\<close> returns the row \<^verbatim>\<open>[2]\<close> alone.
\<close>

theorem where_not_equal_keeps_equal_row:
  "fst (exec q_select_ne (snd (exec q_insert_12 (snd (exec q_create_a tabs)))))
     = Inr [ResultSet [''a''] [[Integer 1], [Integer 2]]] \<and>
   fst (exec q_select_ltgt (snd (exec q_insert_12 (snd (exec q_create_a tabs)))))
     = Inr [ResultSet [''a''] [[Integer 2]]]"
  by (simp only: exec_create_a exec_insert_12 exec_select_ne exec_select_ltgt fst_conv snd_conv
      simp_thms)

lemma select_no_match:
  "rx_search select_rx q = None \<Longrightarrow> select q tabs = (Inl AdvancedSelectNotSupported, tabs)"
  by (simp add: select_def)

lemma exec_select_url: "exec q_select_url tabs = (Inl AdvancedSelectNotSupported, tabs)"
  by (simp add: exec_def select_def select_rx_def q_select_url_def char_defs)

lemma exec_select_csv:
  "exec q_select_csv Map.empty = (Inl (TableDoesNotExist ''read_csv_auto''), Map.empty)"
  by (simp add: exec_def select_def select_rx_def q_select_csv_def char_defs)

text \<open>
  C4. On the empty catalog, \<^verbatim>\<open>SELECT * FROM read_csv_auto('data.csv')\<close> raises the
  table-not-found error for the name \<^verbatim>\<open>read_csv_auto\<close>, not the error for advanced
  SELECT statements: the pattern of \<^verbatim>\<open>select\<close> is not anchored at the end, so it
  matches up to the function name and takes it for a table name. A FROM clause with a
  quoted URL, \<^verbatim>\<open>SELECT * FROM 'https://example.com/file.parquet'\<close>, on which the pattern
  finds no match, does raise the error for advanced SELECT statements.
\<close>

theorem select_function_call_unknown_table:
  "exec q_select_csv Map.empty = (Inl (TableDoesNotExist ''read_csv_auto''), Map.empty) \<and>
   exec q_select_url Map.empty = (Inl AdvancedSelectNotSupported, Map.empty)"
  by (simp only: exec_select_csv exec_select_url simp_thms)

section \<open>INSERT: rows are pushed as they are checked\<close>

lemma push_rows_first_mismatch:
  "k < length ts \<Longrightarrow> length (ts ! k) \<noteq> n \<Longrightarrow> \<forall>j<k. length (ts ! j) = n \<Longrightarrow>
   push_rows n rs ts = (Some (ColumnCountMismatch n (length (ts ! k))), rs @ take k ts)"
proof (induction ts arbitrary: rs k)
  case Nil
  then show ?case by simp
next
  case (Cons t ts)
  show ?case
  proof (cases k)
    case 0
    with Cons.prems show ?thesis by simp
  next
    case (Suc k')
    from Cons.prems Suc have hd_ok: "length t = n" by auto
    from Cons.prems Suc have "k' < length ts" "length (ts ! k') \<noteq> n" "\<forall>j<k'. length (ts ! j) = n"
      by auto
    from Cons.IH[OF this] hd_ok Suc show ?thesis by simp
  qed
qed

lemma push_rows_lengths:
  "push_rows n rs ts = (err, rs') \<Longrightarrow> \<forall>r\<in>set rs. length r = n \<Longrightarrow> \<forall>r\<in>set rs'. length r = n"
proof (induction ts arbitrary: rs)
  case Nil
  then show ?case by simp
next
  case (Cons t ts)
  show ?case
  proof (cases "length t = n")
    case True
    with Cons.prems(1) have "push_rows n (rs @ [t]) ts = (err, rs')" by simp
    moreover from True Cons.prems(2) have "\<forall>r\<in>set (rs @ [t]). length r = n" by simp
    ultimately show ?thesis by (rule Cons.IH)
  next
    case False
    with Cons.prems show ?thesis by simp
  qed
qed

lemma push_rows_error:
  "push_rows n rs ts = (Some e, rs') \<Longrightarrow> \<exists>b. e = ColumnCountMismatch n b"
proof (induction ts arbitrary: rs)
  case Nil
  then show ?case by simp
next
  case (Cons t ts)
  show ?case
  proof (cases "length t = n")
    case True
    with Cons.prems have "push_rows n (rs @ [t]) ts = (Some e, rs')" by simp
    then show ?thesis by (rule Cons.IH)
  next
    case False
    with Cons.prems show ?thesis by auto
  qed
qed

lemma insert_not_create: "startsWith s ''insert into'' \<Longrightarrow> \<not> startsWith s ''create table''"
  by (cases s) auto

text \<open>
  The \<^verbatim>\<open>forEach\<close> of \<^verbatim>\<open>insertInto\<close> works on the value sets that \<^verbatim>\<open>parseValuesSets\<close>
  scans from group 2 of the pattern, which is the text between the first opening and the
  last closing parenthesis after \<^verbatim>\<open>values\<close>, not the tuple list of the statement. If the
  set at index \<open>k\<close> is the first whose length differs from the number of columns,
  \<^verbatim>\<open>exec\<close> raises the column count mismatch and the table holds its prior rows followed
  by the first \<open>k\<close> sets.
\<close>

lemma insertInto_commits_prefix:
  assumes "startsWith (toLowerCase (trim q)) ''insert into''"
    and "rx_search insert_rx q = Some g"
    and "map_of g 1 = Some m1"
    and "map_of g 2 = Some valuesStr"
    and "tabs (toLowerCase m1) = Some tbl"
    and "parseValuesSets valuesStr = ts"
    and "k < length ts"
    and "length (ts ! k) \<noteq> length (columns tbl)"
    and "\<forall>j<k. length (ts ! j) = length (columns tbl)"
  shows "exec q tabs =
    (Inl (ColumnCountMismatch (length (columns tbl)) (length (ts ! k))),
     tabs(toLowerCase m1 \<mapsto> tbl\<lparr>rows := rows tbl @ take k ts\<rparr>))"
proof -
  have "push_rows (length (columns tbl)) (rows tbl) ts =
      (Some (ColumnCountMismatch (length (columns tbl)) (length (ts ! k))), rows tbl @ take k ts)"
    using assms(7-9) by (rule push_rows_first_mismatch)
  with assms(1-6) show ?thesis
    by (simp add: exec_def insertInto_def Let_def insert_not_create)
qed

lemma insertInto_commits_prefix_example:
  "exec q_insert_nested [''t'' \<mapsto> t_a [[Integer 0]]] =
     (Inl (ColumnCountMismatch 1 2), [''t'' \<mapsto> t_a [[Integer 0], [Integer 1]]])"
proof -
  let ?g = "[(2::nat, ''1, (2,3), 4''), (1, ''t'')]"
  let ?ts = "[[Integer 1], [Integer 2, Integer 3], [Integer 4]]"
  have h1: "startsWith (toLowerCase (trim q_insert_nested)) ''insert into''"
    by (simp add: q_insert_nested_def char_defs)
  have h2: "rx_search insert_rx q_insert_nested = Some ?g"
    by (simp add: q_insert_nested_def insert_rx_def char_defs)
  have h3: "map_of ?g 1 = Some ''t''" and h4: "map_of ?g 2 = Some ''1, (2,3), 4''"
    by simp_all
  have h5: "[''t'' \<mapsto> t_a [[Integer 0]]] (toLowerCase ''t'') = Some (t_a [[Integer 0]])"
    by (simp add: char_defs)
  have h6: "parseValuesSets ''1, (2,3), 4'' = ?ts"
    by (simp add: scan_defs char_defs)
  have h7: "1 < length ?ts" by simp
  have h8: "length (?ts ! 1) \<noteq> length (columns (t_a [[Integer 0]]))"
    by (simp add: t_a_def)
  have h9: "\<forall>j<1. length (?ts ! j) = length (columns (t_a [[Integer 0]]))"
    by (simp add: t_a_def)
  show ?thesis
    using insertInto_commits_prefix [where q = q_insert_nested and tabs = "[''t'' \<mapsto> t_a [[Integer 0]]]"
        and k = 1, OF h1 h2 h3 h4 h5 h6 h7 h8 h9]
    by (simp add: t_a_def char_defs)
qed

lemma scan_tuples_x2: "parseValuesSets tuples_x2 = [[Integer 1, Text ''x''], [Integer 2]]"
  by (simp add: tuples_x2_def scan_defs char_defs)

lemma exec_insert_x2:
  "exec q_insert_x2 (tabs(''t'' \<mapsto> t_ab)) = (Inl (ColumnCountMismatch 2 1), tabs(''t'' \<mapsto> t_ab))"
  by (simp add: exec_def insertInto_def insert_rx_def scan_defs q_insert_x2_def tuples_x2_def
      t_ab_def char_defs)

text \<open>
  C2. After \<^verbatim>\<open>CREATE TABLE t (a INT, b TEXT)\<close>, the statement
  \<^verbatim>\<open>INSERT INTO t VALUES (1,'x'),(2)\<close> has the tuple list \<^verbatim>\<open>(1,'x'),(2)\<close>, which the
  scanner splits into the tuples \<^verbatim>\<open>[1,"x"]\<close> and \<^verbatim>\<open>[2]\<close>: the second is the first of
  the wrong length. \<^verbatim>\<open>exec\<close> raises the column count mismatch, but with "expected 2, got
  1" on the first value set, and the table is left with no row: the row \<^verbatim>\<open>[1,"x"]\<close> is
  not stored, and \<^verbatim>\<open>SELECT * FROM t\<close> returns no rows. \<^verbatim>\<open>insertInto\<close> hands the scanner
  the tuple list without its first opening and last closing parenthesis.
\<close>

theorem insert_mismatch_commits_nothing:
  "parseValuesSets tuples_x2 = [[Integer 1, Text ''x''], [Integer 2]] \<and>
   exec q_insert_x2 (snd (exec q_create_ab tabs))
     = (Inl (ColumnCountMismatch 2 1), tabs(''t'' \<mapsto> t_ab)) \<and>
   rows t_ab = [] \<and>
   fst (exec q_select_all (snd (exec q_insert_x2 (snd (exec q_create_ab tabs)))))
     = Inr [ResultSet [''a'', ''b''] []]"
  by (simp only: scan_tuples_x2 exec_create_ab exec_insert_x2 exec_select_all_ab fst_conv snd_conv
      simp_thms) (simp add: t_ab_def)

section \<open>CREATE TABLE overwrites\<close>

text \<open>
  C6. A CREATE TABLE statement that \<^verbatim>\<open>exec\<close> routes to \<^verbatim>\<open>createTable\<close> and that
  succeeds, on any catalog: the pattern matched with an identifier and a column list,
  and the catalog afterwards maps the lower-cased identifier to a table with the parsed
  columns and no rows, whatever it mapped that name to before; every other table is as
  it was, and the result is the empty array (no error, no "already exists").
\<close>

theorem create_table_overwrites:
  assumes "startsWith (toLowerCase (trim q)) ''create table''"
    and "fst (exec q tabs) = Inr r"
  shows "\<exists>g ident columnsStr.
     rx_search create_rx q = Some g \<and> map_of g 1 = Some ident \<and> map_of g 2 = Some columnsStr \<and>
     exec q tabs = (Inr [], tabs(toLowerCase ident \<mapsto>
        \<lparr>columns = map parse_column (split_on CHR '','' columnsStr), rows = []\<rparr>))"
  using assms by (auto simp: exec_def createTable_def Let_def split: option.splits)

theorem create_table_overwrites_witness:
  "startsWith (toLowerCase (trim q_create_upper)) ''create table'' \<and>
   [''t'' \<mapsto> t_a [[Integer 1]]] ''t'' = Some (t_a [[Integer 1]]) \<and>
   exec q_create_upper [''t'' \<mapsto> t_a [[Integer 1]]] =
     (Inr [], [''t'' \<mapsto> \<lparr>columns = [\<lparr>name = ''x'', type = ''TEXT''\<rparr>, \<lparr>name = ''y'', type = ''INT''\<rparr>], rows = []\<rparr>])"
proof -
  have h1: "startsWith (toLowerCase (trim q_create_upper)) ''create table''"
    by (simp add: q_create_upper_def char_defs)
  have h2: "fst (exec q_create_upper [''t'' \<mapsto> t_a [[Integer 1]]]) = Inr []"
    by (simp add: exec_def createTable_def create_rx_def q_create_upper_def char_defs)
  have h3: "rx_search create_rx q_create_upper = Some [(2::nat, ''x, y INT''), (1, ''T'')]"
    by (simp add: create_rx_def q_create_upper_def char_defs)
  show ?thesis
    using create_table_overwrites [where tabs = "[''t'' \<mapsto> t_a [[Integer 1]]]", OF h1 h2] h1 h3
    by (auto simp: parse_column_def char_defs)
qed


section \<open>Row lengths\<close>

lemma createTable_fit: "rows_fit tabs \<Longrightarrow> rows_fit (snd (createTable q tabs))"
  by (auto simp: rows_fit_def createTable_def split: option.splits)

lemma insertInto_fit: "rows_fit tabs \<Longrightarrow> rows_fit (snd (insertInto q tabs))"
  by (auto simp: rows_fit_def insertInto_def Let_def split: option.splits prod.splits
      dest!: push_rows_lengths)

lemma select_same_catalog: "snd (select q tabs) = tabs"
  by (auto simp: select_def Let_def split: option.splits sum.splits)

lemma dropTable_fit: "rows_fit tabs \<Longrightarrow> rows_fit (snd (dropTable q tabs))"
  by (auto simp: rows_fit_def dropTable_def Let_def split: option.splits)

lemma exec_fit: "rows_fit tabs \<Longrightarrow> rows_fit (snd (exec q tabs))"
  by (simp add: exec_def Let_def createTable_fit insertInto_fit select_same_catalog dropTable_fit)

lemma reachable_fit: "reachable tabs \<Longrightarrow> rows_fit tabs"
  by (induction rule: reachable.induct) (simp_all add: rows_fit_def exec_fit [unfolded rows_fit_def])

text \<open>
  C8. In every catalog the engine can reach, every row of every table has as many values
  as the table has columns; and a call of \<^verbatim>\<open>exec\<close> on a catalog with that property,
  whether it returns or throws, leaves a catalog with that property.
\<close>

theorem row_length_invariant:
  "(reachable tabs \<longrightarrow> rows_fit tabs) \<and> (rows_fit tabs \<longrightarrow> rows_fit (snd (exec q tabs)))"
  by (simp add: reachable_fit exec_fit)

theorem row_length_invariant_witness:
  "reachable (snd (exec q_insert_12 (snd (exec q_create_a Map.empty)))) \<and>
   rows_fit (snd (exec q_insert_12 (snd (exec q_create_a Map.empty)))) \<and>
   rows_fit (snd (exec q_insert_nested (snd (exec q_insert_12 (snd (exec q_create_a Map.empty))))))"
proof -
  have r: "reachable (snd (exec q_insert_12 (snd (exec q_create_a Map.empty))))"
    by (intro reachable.step reachable.init)
  show ?thesis
    using r row_length_invariant [of "snd (exec q_insert_12 (snd (exec q_create_a Map.empty)))" q_insert_nested]
    by simp
qed

section \<open>Errors and the catalog\<close>

lemma createTable_err: "fst (createTable q tabs) = Inl e \<Longrightarrow> snd (createTable q tabs) = tabs"
  by (auto simp: createTable_def split: option.splits)

lemma insertInto_err:
  "fst (insertInto q tabs) = Inl e \<Longrightarrow> (\<forall>a b. e \<noteq> ColumnCountMismatch a b) \<Longrightarrow> snd (insertInto q tabs) = tabs"
  by (auto simp: insertInto_def Let_def split: option.splits prod.splits dest: push_rows_error)

lemma dropTable_err: "fst (dropTable q tabs) = Inl e \<Longrightarrow> snd (dropTable q tabs) = tabs"
  by (auto simp: dropTable_def Let_def split: option.splits if_splits)

lemma exec_drop_missing:
  "exec q_drop_missing [''t'' \<mapsto> t_a [[Integer 1]]]
     = (Inl (TableDoesNotExist ''missing''), [''t'' \<mapsto> t_a [[Integer 1]]])"
  by (simp add: exec_def dropTable_def drop_rx_def q_drop_missing_def char_defs)

text \<open>
  C9. When \<^verbatim>\<open>exec\<close> raises an error that is not a column count mismatch, the catalog
  after the call is the catalog before it.
\<close>

theorem exec_error_keeps_catalog:
  "fst (exec q tabs) = Inl e \<Longrightarrow> (\<forall>a b. e \<noteq> ColumnCountMismatch a b) \<Longrightarrow> snd (exec q tabs) = tabs"
  by (auto simp: exec_def Let_def createTable_err insertInto_err select_same_catalog dropTable_err
      split: if_splits)

theorem exec_error_keeps_catalog_witness:
  "fst (exec q_drop_missing [''t'' \<mapsto> t_a [[Integer 1]]]) = Inl (TableDoesNotExist ''missing'') \<and>
   (\<forall>a b. TableDoesNotExist ''missing'' \<noteq> ColumnCountMismatch a b) \<and>
   snd (exec q_drop_missing [''t'' \<mapsto> t_a [[Integer 1]]]) = [''t'' \<mapsto> t_a [[Integer 1]]]"
proof -
  have h1: "fst (exec q_drop_missing [''t'' \<mapsto> t_a [[Integer 1]]]) = Inl (TableDoesNotExist ''missing'')"
    by (simp only: exec_drop_missing fst_conv)
  have h2: "\<forall>a b. TableDoesNotExist ''missing'' \<noteq> ColumnCountMismatch a b"
    by simp
  show ?thesis
    using exec_error_keeps_catalog [OF h1 h2] h1 h2 by simp
qed

section \<open>The patterns of the scalar parser\<close>

lemma rx_match_rests_any: "fst ` set (rx_match r (s, g)) = fst ` set (rx_match r (s, []))"
proof (induction r arbitrary: s g)
  case (Seq a b)
  have "fst ` set (rx_match (Seq a b) (s, g'))
      = (\<Union>s'\<in>fst ` set (rx_match a (s, [])). fst ` set (rx_match b (s', [])))" for g'
  proof -
    have "fst ` set (rx_match (Seq a b) (s, g'))
        = (\<Union>p\<in>set (rx_match a (s, g')). fst ` set (rx_match b p))"
      by (simp add: image_UN)
    also have "\<dots> = (\<Union>p\<in>set (rx_match a (s, g')). fst ` set (rx_match b (fst p, [])))"
      using Seq.IH(2) by (metis prod.collapse)
    also have "\<dots> = (\<Union>s'\<in>fst ` set (rx_match a (s, g')). fst ` set (rx_match b (s', [])))"
      by simp
    also have "\<dots> = (\<Union>s'\<in>fst ` set (rx_match a (s, [])). fst ` set (rx_match b (s', [])))"
      using Seq.IH(1)[of s g'] by simp
    finally show ?thesis .
  qed
  from this[of g] this[of "[]"] show ?case by simp
next
  case (Opt r)
  from Opt[of s g] show ?case by (simp add: image_Un)
next
  case (Grp i r)
  have "fst ` set (rx_match (Grp i r) (s, g')) = fst ` set (rx_match r (s, g'))" for g'
    by (force simp: image_iff split: prod.splits)
  with Grp[of s g] show ?case by simp
qed (auto simp: image_iff split: list.splits)

lemma rests_Eps: "rests Eps s = {s}"
  by (simp add: rests_def)

lemma rests_Chr: "rests (Chr k) s = {cs. \<exists>c. s = c # cs \<and> in_cls k c}"
  by (auto simp: rests_def split: list.splits)

lemma rests_Seq: "rests (Seq a b) s = (\<Union>s'\<in>rests a s. rests b s')"
proof -
  have "rests (Seq a b) s = (\<Union>p\<in>set (rx_match a (s, [])). fst ` set (rx_match b p))"
    by (simp add: rests_def image_UN)
  also have "\<dots> = (\<Union>p\<in>set (rx_match a (s, [])). rests b (fst p))"
    unfolding rests_def using rx_match_rests_any by (metis prod.collapse)
  also have "\<dots> = (\<Union>s'\<in>rests a s. rests b s')"
    by (simp add: rests_def)
  finally show ?thesis .
qed

lemma star_rests_set: "set (star_rests k s) = {r. \<exists>p. s = p @ r \<and> list_all (in_cls k) p}"
proof (induction s)
  case Nil
  then show ?case by auto
next
  case (Cons c cs)
  show ?case
  proof (cases "in_cls k c")
    case True
    have "{r. \<exists>p. c # cs = p @ r \<and> list_all (in_cls k) p}
        = insert (c # cs) {r. \<exists>p. cs = p @ r \<and> list_all (in_cls k) p}"
      using True by (auto simp: Cons_eq_append_conv) 
    with Cons True show ?thesis by simp
  next
    case False
    then have "{r. \<exists>p. c # cs = p @ r \<and> list_all (in_cls k) p} = {c # cs}"
      by (auto simp: Cons_eq_append_conv)
    with False show ?thesis by simp
  qed
qed

lemma rests_Star: "rests (Star k) s = {r. \<exists>p. s = p @ r \<and> list_all (in_cls k) p}"
  by (simp add: rests_def image_image star_rests_set)

lemma rests_Opt: "rests (Opt r) s = insert s (rests r s)"
  by (auto simp: rests_def)

lemma rx_test_rests: "rx_test r s \<longleftrightarrow> [] \<in> rests r s"
  by (force simp: rx_test_def rests_def list_ex_iff)

lemma in_Eps: "r \<in> rests Eps s \<longleftrightarrow> r = s"
  by (simp add: rests_Eps)

lemma in_Chr: "r \<in> rests (Chr k) s \<longleftrightarrow> (\<exists>c. s = c # r \<and> in_cls k c)"
  by (simp add: rests_Chr)

lemma in_Seq: "r \<in> rests (Seq a b) s \<longleftrightarrow> (\<exists>m. m \<in> rests a s \<and> r \<in> rests b m)"
  by (auto simp: rests_Seq)

lemma in_Star: "r \<in> rests (Star k) s \<longleftrightarrow> (\<exists>p. s = p @ r \<and> list_all (in_cls k) p)"
  by (simp add: rests_Star)

lemma in_Opt: "r \<in> rests (Opt a) s \<longleftrightarrow> r = s \<or> r \<in> rests a s"
  by (simp add: rests_Opt)

lemma in_Plus: "r \<in> rests (Plus k) s \<longleftrightarrow> (\<exists>p. p \<noteq> [] \<and> s = p @ r \<and> list_all (in_cls k) p)"
proof
  assume "r \<in> rests (Plus k) s"
  then obtain c p where "s = c # p @ r" "in_cls k c" "list_all (in_cls k) p"
    by (auto simp: Plus_def in_Seq in_Chr in_Star)
  then have "c # p \<noteq> [] \<and> s = (c # p) @ r \<and> list_all (in_cls k) (c # p)" by simp
  then show "\<exists>p. p \<noteq> [] \<and> s = p @ r \<and> list_all (in_cls k) p" by blast
next
  assume "\<exists>p. p \<noteq> [] \<and> s = p @ r \<and> list_all (in_cls k) p"
  then obtain p where p: "p \<noteq> []" "s = p @ r" "list_all (in_cls k) p" by blast
  then obtain c p' where "p = c # p'" by (cases p) auto
  with p have "s = c # p' @ r \<and> in_cls k c \<and> list_all (in_cls k) p'" by simp
  then have "p' @ r \<in> rests (Chr k) s \<and> r \<in> rests (Star k) (p' @ r)"
    unfolding in_Chr in_Star by blast
  then show "r \<in> rests (Plus k) s"
    unfolding Plus_def in_Seq by blast
qed

lemma in_minus: "m \<in> rests (Opt (Chr (Exact CHR ''-''))) v \<longleftrightarrow> v = m \<or> v = CHR ''-'' # m"
  by (auto simp: in_Opt in_Chr)

lemma in_cls_Digit: "in_cls Digit = is_digit"
  by (rule ext) simp

lemmas in_simps = rx_test_rests seqs.simps in_Seq in_minus in_Star in_Chr in_Plus in_Eps in_cls_Digit in_cls.simps

lemma int_rx_iff:
  "rx_test int_rx v \<longleftrightarrow>
     (\<exists>ds. ds \<noteq> [] \<and> list_all is_digit ds \<and> (v = ds \<or> v = CHR ''-'' # ds))"
    (is "?L \<longleftrightarrow> ?R")
proof
  show "?L \<Longrightarrow> ?R"
    unfolding int_rx_def in_simps by fastforce
next
  assume ?R
  then obtain ds where h: "ds \<noteq> []" "list_all is_digit ds" "v = ds \<or> v = CHR ''-'' # ds"
    by blast
  from h(3) have 1: "ds \<in> rests (Opt (Chr (Exact CHR ''-''))) v"
    by (simp add: in_minus)
  from h(1,2) have 2: "[] \<in> rests (Plus Digit) ds"
    by (simp add: in_Plus in_cls_Digit)
  have 3: "[] \<in> rests Eps []"
    by (simp add: in_Eps)
  from 1 2 3 show ?L
    unfolding rx_test_rests int_rx_def seqs.simps in_Seq by blast
qed

lemma float_rx_iff:
  "rx_test float_rx v \<longleftrightarrow>
     (\<exists>ip fp. list_all is_digit ip \<and> fp \<noteq> [] \<and> list_all is_digit fp \<and>
        (v = ip @ CHR ''.'' # fp \<or> v = CHR ''-'' # ip @ CHR ''.'' # fp))"
    (is "?L \<longleftrightarrow> ?R")
proof
  show "?L \<Longrightarrow> ?R"
    unfolding float_rx_def in_simps by fastforce
next
  assume ?R
  then obtain ip fp where h: "list_all is_digit ip" "fp \<noteq> []" "list_all is_digit fp"
      "v = ip @ CHR ''.'' # fp \<or> v = CHR ''-'' # ip @ CHR ''.'' # fp" by blast
  from h(4) have 1: "ip @ CHR ''.'' # fp \<in> rests (Opt (Chr (Exact CHR ''-''))) v"
    by (simp add: in_minus)
  from h(1) have 2: "CHR ''.'' # fp \<in> rests (Star Digit) (ip @ CHR ''.'' # fp)"
    by (simp add: in_Star in_cls_Digit)
  have 3: "fp \<in> rests (Chr (Exact CHR ''.'')) (CHR ''.'' # fp)"
    by (simp add: in_Chr)
  from h(2,3) have 4: "[] \<in> rests (Plus Digit) fp"
    by (simp add: in_Plus in_cls_Digit)
  have 5: "[] \<in> rests Eps []"
    by (simp add: in_Eps)
  from 1 2 3 4 5 show ?L
    unfolding rx_test_rests float_rx_def seqs.simps in_Seq by blast
qed

text \<open>
  C5. On a literal token, with \<open>v\<close> the trimmed token, \<^verbatim>\<open>parseValue\<close> returns
  \<^verbatim>\<open>null\<close> if \<open>v\<close> is "null" in any letter case; else \<^verbatim>\<open>true\<close> or \<^verbatim>\<open>false\<close> if \<open>v\<close> is
  exactly "true" or "false"; else the integer \<^verbatim>\<open>parseInt(v, 10)\<close> if \<open>v\<close> is an optional
  minus sign and one or more digits; else the number \<^verbatim>\<open>parseFloat(v)\<close> if \<open>v\<close> is an
  optional minus sign, digits (possibly none), a point and one or more digits; else \<open>v\<close>
  itself as a string. The checks are tried in that order.
\<close>

theorem parseValue_inference_order:
  "parseValue tok =
     (let v = trim tok in
      if toLowerCase v = ''null'' then Null
      else if v = ''true'' then Bool True
      else if v = ''false'' then Bool False
      else if (\<exists>ds. ds \<noteq> [] \<and> list_all is_digit ds \<and> (v = ds \<or> v = CHR ''-'' # ds))
        then Integer (parseInt v)
      else if (\<exists>ip fp. list_all is_digit ip \<and> fp \<noteq> [] \<and> list_all is_digit fp \<and>
                 (v = ip @ CHR ''.'' # fp \<or> v = CHR ''-'' # ip @ CHR ''.'' # fp))
        then Float (parseFloat v)
      else Text v)"
  unfolding parseValue_def int_rx_iff float_rx_iff ..

theorem parseValue_inference_order_witness:
  "parseValue ''NULL'' = Null \<and> parseValue ''true'' = Bool True \<and> parseValue ''false'' = Bool False \<and>
   parseValue ''-12'' = Integer (- 12) \<and> parseValue ''1.5'' = Float (3 / 2) \<and>
   parseValue ''True'' = Text ''True'' \<and> parseValue ''1.'' = Text ''1.''"
  using parseValue_inference_order [of "''NULL''"] parseValue_inference_order [of "''-12''"]
  by (simp add: scan_defs parseFloat_def unsigned_decimal_def char_defs)

section \<open>The fallback of the WHERE clause\<close>

text \<open>
  C7. A WHERE condition \<open>w\<close> on which the pattern of \<^verbatim>\<open>evaluateWhere\<close> finds no match
  (such as \<^verbatim>\<open>true\<close>), or whose matched identifier is the name of no column of the table
  (compared in lower case): \<^verbatim>\<open>evaluateWhere\<close> returns \<^verbatim>\<open>true\<close> for every row, the
  filter keeps every row, and a SELECT statement with that WHERE clause on an existing
  table with those columns returns all the rows of the table (projected to the selected
  columns), or the column-not-found error of the selection. \<^verbatim>\<open>evaluateWhere\<close> has no
  \<^verbatim>\<open>throw\<close>: it is a total function to the booleans.
\<close>

theorem where_fallback_keeps_rows:
  assumes "rx_search where_rx w = None \<or>
     (\<exists>g c. rx_search where_rx w = Some g \<and> map_of g 1 = Some c \<and>
        findIndex (\<lambda>col. toLowerCase (name col) = toLowerCase c) cols = None)"
  shows "(\<forall>row. evaluateWhere row cols w) \<and>
     filter (\<lambda>row. evaluateWhere row cols w) rs = rs \<and>
     (\<forall>q g m1 m2 tabs tbl.
        rx_search select_rx q = Some g \<and> map_of g 1 = Some m1 \<and> map_of g 2 = Some m2 \<and>
        map_of g 3 = Some w \<and> tabs (toLowerCase m2) = Some tbl \<and> columns tbl = cols \<longrightarrow>
        select q tabs =
          (if trim m1 = ''*'' then (Inr [ResultSet (map name cols) (rows tbl)], tabs)
           else (case colIndices cols (map trim (split_on CHR '','' (trim m1))) of
                   Inl e \<Rightarrow> (Inl e, tabs)
                 | Inr is \<Rightarrow>
                     (Inr [ResultSet (map trim (split_on CHR '','' (trim m1)))
                             (map (\<lambda>row. map (cell row) is) (rows tbl))], tabs))))"
proof -
  have all: "evaluateWhere row cols w" for row
    using assms by (auto simp: evaluateWhere_def split: option.splits)
  then have keep: "filter (\<lambda>row. evaluateWhere row cols w) xs = xs" for xs
    by simp
  have "select q tabs =
          (if trim m1 = ''*'' then (Inr [ResultSet (map name cols) (rows tbl)], tabs)
           else (case colIndices cols (map trim (split_on CHR '','' (trim m1))) of
                   Inl e \<Rightarrow> (Inl e, tabs)
                 | Inr is \<Rightarrow>
                     (Inr [ResultSet (map trim (split_on CHR '','' (trim m1)))
                             (map (\<lambda>row. map (cell row) is) (rows tbl))], tabs)))"
    if "rx_search select_rx q = Some g" "map_of g 1 = Some m1" "map_of g 2 = Some m2"
      "map_of g 3 = Some w" "tabs (toLowerCase m2) = Some tbl" "columns tbl = cols"
    for q g m1 m2 tabs tbl
    using that keep by (auto simp: select_def Let_def split: sum.splits)
  with all keep show ?thesis by blast
qed

theorem where_fallback_keeps_rows_witness:
  "rx_search where_rx ''true'' = None \<and>
   filter (\<lambda>row. evaluateWhere row (columns (t_a [])) ''true'') [[Integer 1], [Integer 2]]
     = [[Integer 1], [Integer 2]] \<and>
   filter (\<lambda>row. evaluateWhere row (columns (t_a [])) ''b = 1'') [[Integer 1], [Integer 2]]
     = [[Integer 1], [Integer 2]] \<and>
   exec q_select_true [''t'' \<mapsto> t_a [[Integer 1], [Integer 2]]]
     = (Inr [ResultSet [''a''] [[Integer 1], [Integer 2]]], [''t'' \<mapsto> t_a [[Integer 1], [Integer 2]]])"
proof -
  have h1: "rx_search where_rx ''true'' = None"
    by (simp add: where_rx_def char_defs)
  have h2: "rx_search where_rx ''b = 1'' = Some [(3, ''1''), (2, ''=''), (1, ''b'')]"
    by (simp add: where_rx_def char_defs)
  have h3: "findIndex (\<lambda>col. toLowerCase (name col) = toLowerCase ''b'') (columns (t_a [])) = None"
    by (simp add: t_a_def char_defs)
  have h4: "exec q_select_true [''t'' \<mapsto> t_a [[Integer 1], [Integer 2]]]
     = (Inr [ResultSet [''a''] [[Integer 1], [Integer 2]]], [''t'' \<mapsto> t_a [[Integer 1], [Integer 2]]])"
    by (simp add: exec_def select_def select_rx_def evaluateWhere_def where_rx_def q_select_true_def
      t_a_def char_defs)
  from h2 h3 have h5: "rx_search where_rx ''b = 1'' = None \<or>
     (\<exists>g c. rx_search where_rx ''b = 1'' = Some g \<and> map_of g 1 = Some c \<and>
        findIndex (\<lambda>col. toLowerCase (name col) = toLowerCase c) (columns (t_a [])) = None)"
    by simp
  from h1 have h6: "rx_search where_rx ''true'' = None \<or>
     (\<exists>g c. rx_search where_rx ''true'' = Some g \<and> map_of g 1 = Some c \<and>
        findIndex (\<lambda>col. toLowerCase (name col) = toLowerCase c) (columns (t_a [])) = None)"
    by simp
  show ?thesis
    using where_fallback_keeps_rows [OF h6, of "[[Integer 1], [Integer 2]]"]
      where_fallback_keeps_rows [OF h5, of "[[Integer 1], [Integer 2]]"] h1 h4
    by simp
qed

section \<open>Escaped apostrophes\<close>

lemma loop_inside_quotes:
  "escaped_from prev s \<Longrightarrow>
   parseValues_loop prev True cur vals (s @ rest)
     = parseValues_loop (if s = [] then prev else Some (last s)) True (cur @ s) vals rest"
proof (induction s arbitrary: prev cur)
  case Nil
  then show ?case by simp
next
  case (Cons c cs)
  from Cons.prems have c: "c \<noteq> apos \<or> prev = Some bslash" and cs: "escaped_from (Some c) cs"
    by simp_all
  from c have "parseValues_loop prev True cur vals ((c # cs) @ rest)
      = parseValues_loop (Some c) True (cur @ [c]) vals (cs @ rest)"
    by auto
  also have "\<dots> = parseValues_loop (if cs = [] then Some c else Some (last cs)) True
      ((cur @ [c]) @ cs) vals rest"
    by (rule Cons.IH [OF cs])
  finally show ?case by simp
qed

lemma loop_quoted_literal:
  assumes "quoted_content s" and "prev \<noteq> Some bslash"
  shows "parseValues_loop prev False cur vals (apos # s @ apos # rest)
     = parseValues_loop (Some apos) False (cur @ s) vals rest"
proof -
  from assms(1) have e: "escaped_from (Some apos) s" and l: "s = [] \<or> last s \<noteq> bslash"
    by (simp_all add: quoted_content_def)
  have "parseValues_loop prev False cur vals (apos # s @ apos # rest)
      = parseValues_loop (Some apos) True cur vals (s @ apos # rest)"
    using assms(2) by simp
  also have "\<dots> = parseValues_loop (if s = [] then Some apos else Some (last s)) True (cur @ s) vals
      (apos # rest)"
    by (rule loop_inside_quotes [OF e])
  also have "\<dots> = parseValues_loop (Some apos) False (cur @ s) vals rest"
    using l by (auto simp: apos_def bslash_def)
  finally show ?thesis .
qed

lemma trim_keeps_middle:
  assumes "\<not> is_space a" and "\<not> is_space b"
  shows "trim (u @ a # b # v) = dropWhile is_space u @ a # b # rev (dropWhile is_space (rev v))"
proof -
  have 1: "dropWhile is_space (u @ a # b # v) = dropWhile is_space u @ a # b # v"
    using assms(1) by (simp add: dropWhile_append)
  have 2: "dropWhile is_space (rev v @ b # a # rev (dropWhile is_space u))
      = dropWhile is_space (rev v) @ b # a # rev (dropWhile is_space u)"
    using assms(2) by (simp add: dropWhile_append)
  show ?thesis
    by (simp add: trim_def 1 2)
qed

lemma apos_not_null: "apos \<in> set v \<Longrightarrow> toLowerCase v \<noteq> ''null''"
proof
  assume a: "apos \<in> set v" and "toLowerCase v = ''null''"
  then have "lower_char apos \<in> set ''null''"
    by (metis toLowerCase_def image_eqI set_map)
  then show False
    by (simp add: lower_char_def upper_chars_def lower_chars_def apos_def)
qed

lemma apos_text: 
  assumes "apos \<in> set v" and "trim v = v"
  shows "parseValue v = Text v"
proof -
  have n: "toLowerCase v \<noteq> ''null''" using assms(1) by (rule apos_not_null)
  have t: "v \<noteq> ''true''" "v \<noteq> ''false''" using assms(1) by (auto simp: apos_def)
  have d: "\<not> is_digit apos" by (simp add: is_digit_def code_def apos_def)
  have i: "\<not> rx_test int_rx v"
    unfolding int_rx_iff using assms(1) d by (auto simp: list_all_iff apos_def)
  have f: "\<not> rx_test float_rx v"
    unfolding float_rx_iff using assms(1) d by (auto simp: list_all_iff apos_def)
  from n t i f assms(2) show ?thesis
    by (simp add: parseValue_def)
qed

lemma strip_parens_quoted: "strip_parens (apos # s @ [apos]) = apos # s @ [apos]"
  by (simp add: strip_parens_def apos_def)

text \<open>
  C10. A quoted literal whose content \<open>s\<close> contains an apostrophe after a backslash:
  \<^verbatim>\<open>parseValues\<close> on the literal returns the one string \<open>trim s\<close>, which still has the
  backslash and the apostrophe (nothing but white space at the two ends of the content
  is removed, and only the two delimiting apostrophes are dropped). Wherever such a
  literal stands in a tuple, after a character that is not a backslash, the loop of
  \<^verbatim>\<open>parseValues\<close> appends the whole content to the current token and is outside quotes
  after the closing apostrophe: the escaped apostrophe did not close the quote.
\<close>

theorem escaped_apostrophe_kept:
  assumes "quoted_content s" and "s = u @ bslash # apos # v"
  shows "parseValues (apos # s @ [apos]) = [Text (trim s)] \<and>
     trim s = dropWhile is_space u @ bslash # apos # rev (dropWhile is_space (rev v)) \<and>
     (\<forall>prev cur vals rest. prev \<noteq> Some bslash \<longrightarrow>
        parseValues_loop prev False cur vals (apos # s @ apos # rest)
          = parseValues_loop (Some apos) False (cur @ s) vals rest)"
proof -
  have sp: "\<not> is_space bslash" "\<not> is_space apos"
    by (simp_all add: is_space_def code_def bslash_def apos_def)
  have t: "trim s = dropWhile is_space u @ bslash # apos # rev (dropWhile is_space (rev v))"
    unfolding assms(2) using sp by (rule trim_keeps_middle)
  have tt: "trim (trim s) = trim s"
    unfolding t using sp by (simp add: trim_keeps_middle)
  have ne: "trim s \<noteq> []" and mem: "apos \<in> set (trim s)"
    by (simp_all add: t)
  have loop: "parseValues_loop prev False cur vals (apos # s @ apos # rest)
      = parseValues_loop (Some apos) False (cur @ s) vals rest"
    if "prev \<noteq> Some bslash" for prev cur vals rest
    using assms(1) that by (rule loop_quoted_literal)
  from loop [of None "[]" "[]" "[]"] have "parseValues_loop None False [] [] (apos # s @ [apos]) = ([], s)"
    by simp
  then have "parseValues (apos # s @ [apos]) = [parseValue (trim s)]"
    using ne by (simp add: parseValues_def strip_parens_quoted)
  also have "parseValue (trim s) = Text (trim s)"
    using mem tt by (rule apos_text)
  finally show ?thesis using t loop by simp
qed

lemma exec_insert_quote:
  "exec q_insert_quote [''t'' \<mapsto> t_a []]
     = (Inr [], [''t'' \<mapsto> t_a [[Text (''it'' @ bslash # apos # ''s'')]]])"
  by (simp add: exec_def insertInto_def insert_rx_def scan_defs q_insert_quote_def t_a_def char_defs)

theorem escaped_apostrophe_kept_witness:
  "quoted_content (''it'' @ bslash # apos # ''s'') \<and>
   parseValues (apos # (''it'' @ bslash # apos # ''s'') @ [apos]) = [Text (''it'' @ bslash # apos # ''s'')] \<and>
   exec q_insert_quote [''t'' \<mapsto> t_a []]
     = (Inr [], [''t'' \<mapsto> t_a [[Text (''it'' @ bslash # apos # ''s'')]]])"
proof -
  have h1: "quoted_content (''it'' @ bslash # apos # ''s'')"
    by (simp add: quoted_content_def apos_def bslash_def)
  have h2: "trim (''it'' @ bslash # apos # ''s'') = ''it'' @ bslash # apos # ''s''"
    by (simp add: char_defs)
  show ?thesis
    using escaped_apostrophe_kept [OF h1 refl] h1 h2 exec_insert_quote by simp
qed

section \<open>Capture groups\<close>

text \<open>
  The groups the handlers read are outside every optional part of their patterns, so a
  match always defines them: no handler, and so no call of \<^verbatim>\<open>exec\<close>, raises a
  \<^verbatim>\<open>TypeError\<close>. \<^verbatim>\<open>split(/\s+/)\<close> always returns a first piece, the column name.
\<close>

lemma split_ws_nonempty: "split_ws s \<noteq> []"
  by (induction s rule: split_ws.induct) (auto split: list.splits)

lemma rx_match_groups:
  "(s', g') \<in> set (rx_match r (s, g)) \<Longrightarrow> fst ` set g \<union> groups_of r \<subseteq> fst ` set g'"
proof (induction r arbitrary: s g s' g')
  case (Seq a b)
  from Seq.prems obtain s1 g1 where 1: "(s1, g1) \<in> set (rx_match a (s, g))"
    and 2: "(s', g') \<in> set (rx_match b (s1, g1))"
    by auto
  from Seq.IH(1)[OF 1] Seq.IH(2)[OF 2] show ?case
    unfolding groups_of.simps by blast
next
  case (Opt r)
  from Opt.prems consider "(s', g') \<in> set (rx_match r (s, g))" | "g' = g"
    by auto
  then show ?case
  proof cases
    case 1
    from Opt.IH[OF 1] show ?thesis by simp
  next
    case 2
    then show ?thesis by simp
  qed
next
  case (Grp i r)
  from Grp.prems obtain g1 where 1: "(s', g1) \<in> set (rx_match r (s, g))"
    and 2: "g' = (i, take (length s - length s') s) # g1"
    by auto
  from Grp.IH[OF 1] have "fst ` set g \<union> groups_of r \<subseteq> fst ` set g1" .
  then show ?case
    unfolding 2 groups_of.simps by auto
qed (auto split: list.splits if_splits)

lemma rx_search_groups: "rx_search r q = Some g \<Longrightarrow> i \<in> groups_of r \<Longrightarrow> map_of g i \<noteq> None"
proof (induction q)
  case Nil
  then obtain s' where "(s', g) \<in> set (rx_match r ([], []))"
    by (auto split: list.splits)
  from rx_match_groups[OF this] Nil.prems(2) show ?case
    by (auto simp: map_of_eq_None_iff)
next
  case (Cons c cs)
  show ?case
  proof (cases "rx_match r (c # cs, [])")
    case Nil
    with Cons show ?thesis by simp
  next
    case (Cons p ps)
    with Cons.prems(1) have "(fst p, g) \<in> set (rx_match r (c # cs, []))"
      by (auto split: prod.splits)
    from rx_match_groups[OF this] Cons.prems(2) show ?thesis
      by (auto simp: map_of_eq_None_iff)
  qed
qed

lemma groups_of_word: "groups_of (word w) = {}"
  by (induction w) auto

lemma groups_create: "groups_of create_rx = {1, 2}"
  by (auto simp: create_rx_def Plus_def groups_of_word)

lemma groups_insert: "groups_of insert_rx = {1, 2}"
  by (auto simp: insert_rx_def Plus_def groups_of_word)

lemma groups_select: "groups_of select_rx = {1, 2}"
  by (auto simp: select_rx_def Plus_def groups_of_word)

lemma groups_drop: "groups_of drop_rx = {1}"
  by (auto simp: drop_rx_def Plus_def groups_of_word)

lemma createTable_no_TypeError: "fst (createTable q tabs) \<noteq> Inl TypeError"
  using rx_search_groups[of create_rx q _ 1] rx_search_groups[of create_rx q _ 2]
  by (auto simp: createTable_def groups_create split: option.splits)

lemma push_rows_no_TypeError: "fst (push_rows n rs ts) \<noteq> Some TypeError"
  by (induction ts arbitrary: rs) auto

lemma insertInto_no_TypeError: "fst (insertInto q tabs) \<noteq> Inl TypeError"
  using rx_search_groups[of insert_rx q _ 1] rx_search_groups[of insert_rx q _ 2]
    push_rows_no_TypeError
  by (auto simp: insertInto_def Let_def groups_insert split: option.splits prod.splits)
     (metis fst_conv)

lemma colIndices_no_TypeError: "colIndices cols ns \<noteq> Inl TypeError"
  by (induction ns) (auto split: option.splits sum.splits)

lemma select_no_TypeError: "fst (select q tabs) \<noteq> Inl TypeError"
  using rx_search_groups[of select_rx q _ 1] rx_search_groups[of select_rx q _ 2]
    colIndices_no_TypeError
  by (auto simp: select_def Let_def groups_select split: option.splits sum.splits)

lemma dropTable_no_TypeError: "fst (dropTable q tabs) \<noteq> Inl TypeError"
  using rx_search_groups[of drop_rx q _ 1]
  by (auto simp: dropTable_def Let_def groups_drop split: option.splits)

lemma exec_no_TypeError: "fst (exec q tabs) \<noteq> Inl TypeError"
  by (simp add: exec_def Let_def createTable_no_TypeError insertInto_no_TypeError
      select_no_TypeError dropTable_no_TypeError)

end
